theory Spec2Isabelle
  imports Main
begin

section \<open>DireDB: a directory of JSON files as a document store\<close>

text \<open>
  A shallow embedding of \<^verbatim>\<open>src/dire.js\<close> (class \<^verbatim>\<open>Dire\<close>). The class keeps
  \<^verbatim>\<open>this.data\<close>, an object from collection names to arrays of records, and
  \<^verbatim>\<open>this.modifiedCollections\<close>, a \<^verbatim>\<open>Set\<close> of names; \<^verbatim>\<open>save\<close> writes one file
  \<^verbatim>\<open>name.json\<close> per modified collection and \<^verbatim>\<open>load\<close> reads every \<^verbatim>\<open>.json\<close> file of
  the directory back.

  JavaScript arrays and objects are reference values, and the class stores and returns
  them without copying, so the embedding has an explicit heap:
  \<^item> array objects live in \<open>heap_arrays\<close>, record objects in \<open>heap_objects\<close>; an address is
    the index of the cell, and allocation appends a cell, so a new address is never one
    in use;
  \<^item> an array cell holds its elements: primitives, or references to record objects;
  \<^item> a record object holds its JSON value; what is nested below a record is a plain
    value. One record object can be an element of several arrays, but an object nested
    in a record that something else holds as well (another record, a collection, the
    caller) has no image here: the general statements about what a mutation leaves
    alone are stated for flat records, in which nothing is nested.

  Numbers are restricted to the integers. The text of a file is not modelled: a file
  holds the JSON value that \<^verbatim>\<open>JSON.parse\<close> reads from it, which for a file written with
  \<^verbatim>\<open>JSON.stringify\<close> is the value written. Paths are POSIX paths (the separator is
  \<^verbatim>\<open>/\<close>) in a file system without links that keeps the names of files as they are
  given (it tells upper case from lower case), and nothing but the instance at hand
  changes the directory.

  Every method of the class is \<^verbatim>\<open>async\<close>. The functions below give what one call does
  from its start to the point where its promise settles, when nothing else runs in
  between: this is the behaviour of a program that awaits every call before it makes the
  next. \<open>save\<close>, \<open>load\<close> and \<open>drop\<close> suspend at each \<^verbatim>\<open>await\<close> of the file system, and
  a call made while one of them is suspended (by the caller, by the autosave timer, or the
  \<^verbatim>\<open>load\<close> that the constructor starts and does not await) runs in between its steps.
  Such overlapping executions are described only where a statement says so (two
  overlapping loads, for the round trip); every other statement is about calls that do
  not overlap.
\<close>

subsection \<open>Values\<close>

type_synonym addr = nat

datatype json =
    JNull
  | JBool bool
  | JNum int
  | JStr string
  | JArr "json list"
  | JObj "(string \<times> json) list"

text \<open>
  An element of an array: a primitive, or a reference to a record object. (An array never
  holds \<^verbatim>\<open>undefined\<close> here: the elements are those JSON can express.)
\<close>

datatype elem = ENull | EBool bool | ENum int | EStr string | ERef addr

text \<open>
  What a property of \<^verbatim>\<open>this.data\<close> holds, and what a caller passes as \<^verbatim>\<open>items\<close> to
  \<^verbatim>\<open>add\<close>: a reference to an array, or a value that is not an array (given by its JSON
  value). \<^verbatim>\<open>undefined\<close>, and a property that is absent, is \<open>None\<close>; the properties
  that \<^verbatim>\<open>this.data\<close> inherits (\<^verbatim>\<open>constructor\<close> and the like) are not modelled.
\<close>

datatype slot = SArr addr | SOther json

datatype fault = TypeError

text \<open>
  A file of the directory: its content parses to an object (given by its properties), or
  reading it, parsing it or reading a property of the parsed value raises. (Content that
  parses to a number, a string, a boolean or an array has no property of a collection's
  name, as an object without that property; index and \<^verbatim>\<open>length\<close> properties and
  inherited ones are not modelled.)
\<close>

datatype fcontent = Wrapper "(string \<times> json) list" | Unparsable

text \<open>
  A callback \<^verbatim>\<open>filterFunction\<close> reads the record it is given through the heap of
  record objects and answers truthy or falsy; a callback \<^verbatim>\<open>updateFunction\<close> changes the
  record it is given in place, and is modelled by the function from the record's old
  value to its new one. Callbacks are taken to do nothing else: a predicate has no
  effect, and a mutator only assigns to own properties of the record it is given, values
  that nothing else holds (primitives or new objects); neither raises. A mutator that
  changes an object nested in the record in place, or any other object, is not described.
\<close>

type_synonym filterFunction = "json list \<Rightarrow> elem \<Rightarrow> bool"
type_synonym updateFunction = "json \<Rightarrow> json"

subsection \<open>The store and its environment\<close>

text \<open>
  The fields \<open>directoryPath\<close>, \<open>data\<close>, \<open>modifiedCollections\<close> and \<open>isLoaded\<close> are
  those of the class (\<^verbatim>\<open>saveInterval\<close> and \<^verbatim>\<open>timer\<close> are not modelled: a tick of the timer
  is a call of \<open>save\<close>). \<open>directoryPath\<close> is the absolute path of the directory, as the
  list of its segments from the root, without \<^verbatim>\<open>.\<close> and \<^verbatim>\<open>..\<close>. A JavaScript \<^verbatim>\<open>Set\<close>
  iterates in insertion order, so the set of modified names is a list. \<open>dir_files\<close> is
  the directory at \<^verbatim>\<open>directoryPath\<close>: its entries in the order in which
  \<^verbatim>\<open>fs.readdir\<close> lists them, each with its content. Files elsewhere are not modelled. The
  heap and the directory outlive the instance.
\<close>

record dire =
  directoryPath :: "string list"
  data :: "string \<rightharpoonup> slot"
  modifiedCollections :: "string list"
  isLoaded :: bool
  heap_arrays :: "elem list list"
  heap_objects :: "json list"
  dir_files :: "(string \<times> fcontent) list"

text \<open>
  Which calls of the file system raise: the environment of an operation. A write and an
  \<^verbatim>\<open>unlink\<close> are given by the path they are asked for (its segments from the root); a
  path whose directory does not exist, a name the file system refuses and a missing
  permission are failures of the environment. (\<^verbatim>\<open>JSON.stringify\<close> raises on a cyclic
  value and on a BigInt, inside the \<^verbatim>\<open>try\<close> of \<open>save\<close> as a write does; such values are
  not JSON values and have no image here.)
\<close>

record io =
  readdir_fails :: bool
  write_fails :: "string list \<Rightarrow> bool"
  unlink_fails :: "string list \<Rightarrow> bool"

definition io_ok :: io where
  "io_ok = \<lparr>readdir_fails = False, write_fails = (\<lambda>f. False), unlink_fails = (\<lambda>f. False)\<rparr>"

subsection \<open>Reading the heap\<close>

definition array_at :: "elem list list \<Rightarrow> addr \<Rightarrow> elem list option" where
  "array_at h a = (if a < length h then Some (h ! a) else None)"

text \<open>
  \<open>collection s n\<close> is the array behind \<^verbatim>\<open>this.data[n]\<close>; it is \<open>None\<close> when the property
  is \<^verbatim>\<open>undefined\<close> or not an array, where every method call on it raises a TypeError.
\<close>

fun array_of :: "elem list list \<Rightarrow> slot option \<Rightarrow> elem list option" where
  "array_of h (Some (SArr a)) = array_at h a"
| "array_of h v = None"

definition collection :: "dire \<Rightarrow> string \<Rightarrow> elem list option" where
  "collection s n = array_of (heap_arrays s) (data s n)"

text \<open>The JSON value of an element, as \<^verbatim>\<open>JSON.stringify\<close> sees it.\<close>

fun json_of_elem :: "json list \<Rightarrow> elem \<Rightarrow> json" where
  "json_of_elem os ENull = JNull"
| "json_of_elem os (EBool b) = JBool b"
| "json_of_elem os (ENum i) = JNum i"
| "json_of_elem os (EStr t) = JStr t"
| "json_of_elem os (ERef a) = (if a < length os then os ! a else JNull)"

text \<open>The records of a collection by value: what structural equality compares.\<close>

definition records :: "dire \<Rightarrow> string \<Rightarrow> json list option" where
  "records s n = map_option (map (json_of_elem (heap_objects s))) (collection s n)"

text \<open>The JSON value of \<^verbatim>\<open>this.data[n]\<close>; \<open>None\<close> is \<^verbatim>\<open>undefined\<close>.\<close>

fun json_of_slot :: "elem list list \<Rightarrow> json list \<Rightarrow> slot option \<Rightarrow> json option" where
  "json_of_slot h os None = None"
| "json_of_slot h os (Some (SArr a)) =
     map_option (\<lambda>xs. JArr (map (json_of_elem os) xs)) (array_at h a)"
| "json_of_slot h os (Some (SOther j)) = Some j"

definition mem_value :: "dire \<Rightarrow> string \<Rightarrow> json option" where
  "mem_value s n = json_of_slot (heap_arrays s) (heap_objects s) (data s n)"

text \<open>JavaScript truthiness of an element (\<^verbatim>\<open>x || null\<close>).\<close>

fun truthy :: "elem \<Rightarrow> bool" where
  "truthy ENull = False"
| "truthy (EBool b) = b"
| "truthy (ENum i) = (i \<noteq> 0)"
| "truthy (EStr t) = (t \<noteq> [])"
| "truthy (ERef a) = True"

subsection \<open>The directory\<close>

text \<open>The template literal \<^verbatim>\<open>`${collectionName}.json`\<close>.\<close>

definition file_of :: "string \<Rightarrow> string" where
  "file_of n = n @ ''.json''"

text \<open>
  \<^verbatim>\<open>path.join(this.directoryPath, `${collectionName}.json`)\<close> joins the two with a
  separator and normalises the result: the path is cut at every \<^verbatim>\<open>/\<close>, an empty segment
  and a segment \<^verbatim>\<open>.\<close> are dropped, and a segment \<^verbatim>\<open>..\<close> removes the segment before it
  (at the root there is none to remove). \<open>target dp n\<close> is the normalised path for the
  collection name \<open>n\<close> and the directory \<open>dp\<close>.
\<close>

fun segments :: "string \<Rightarrow> string list" where
  "segments [] = [[]]"
| "segments (c # cs) =
     (if c = CHR ''/'' then [] # segments cs
      else (c # hd (segments cs)) # tl (segments cs))"

definition norm_step :: "string list \<Rightarrow> string \<Rightarrow> string list" where
  "norm_step acc seg =
     (if seg = [] \<or> seg = ''.'' then acc
      else if seg = ''..'' then butlast acc
      else acc @ [seg])"

definition target :: "string list \<Rightarrow> string \<Rightarrow> string list" where
  "target dp n = foldl norm_step dp (segments (file_of n))"

text \<open>
  The entry of the directory that the path of the collection \<open>n\<close> denotes; \<open>None\<close> when the
  path leads elsewhere (into a subdirectory, or out of the directory). \<open>plain n\<close>: the
  name has no separator, so that its path is the entry \<^verbatim>\<open>n.json\<close> of the directory.
\<close>

definition entry_of :: "string list \<Rightarrow> string \<Rightarrow> string option" where
  "entry_of dp n =
     (let t = target dp n
      in if t \<noteq> [] \<and> butlast t = dp then Some (last t) else None)"

definition plain :: "string \<Rightarrow> bool" where
  "plain n \<longleftrightarrow> CHR ''/'' \<notin> set n"

definition endsWith :: "string \<Rightarrow> string \<Rightarrow> bool" where
  "endsWith f suf = (length suf \<le> length f \<and> drop (length f - length suf) f = suf)"

text \<open>\<^verbatim>\<open>path.basename(file, '.json')\<close> of a directory entry that ends with the suffix.\<close>

definition basename :: "string \<Rightarrow> string \<Rightarrow> string" where
  "basename f suf = take (length f - length suf) f"

definition readFile :: "dire \<Rightarrow> string \<Rightarrow> fcontent option" where
  "readFile s f = map_of (dir_files s) f"

definition readdir :: "dire \<Rightarrow> string list" where
  "readdir s = map fst (dir_files s)"

text \<open>
  Writing an entry: a file that exists keeps its place in the listing, a new file is
  listed after the others. (Where a file system lists a new file is its own choice; no
  statement below depends on it but the examples of a \<open>load\<close> that stops early.)
\<close>

definition writeFile :: "string \<Rightarrow> fcontent \<Rightarrow> dire \<Rightarrow> dire" where
  "writeFile f c s =
     s\<lparr>dir_files :=
         (if f \<in> fst ` set (dir_files s)
          then map (\<lambda>p. if fst p = f then (f, c) else p) (dir_files s)
          else dir_files s @ [(f, c)])\<rparr>"

definition unlink :: "string \<Rightarrow> dire \<Rightarrow> dire" where
  "unlink f s = s\<lparr>dir_files := filter (\<lambda>e. fst e \<noteq> f) (dir_files s)\<rparr>"

text \<open>
  \<^verbatim>\<open>fs.writeFile\<close> and \<^verbatim>\<open>fs.unlink\<close> of a joined path that do not raise: on an entry of
  the directory, or on a file elsewhere, which leaves the directory as it is.
\<close>

fun write_path :: "string option \<Rightarrow> fcontent \<Rightarrow> dire \<Rightarrow> dire" where
  "write_path None c s = s"
| "write_path (Some f) c s = writeFile f c s"

fun unlink_path :: "string option \<Rightarrow> dire \<Rightarrow> dire" where
  "unlink_path None s = s"
| "unlink_path (Some f) s = unlink f s"

text \<open>
  What a \<open>load\<close> reads for the collection \<open>n\<close>: the property \<open>n\<close> of the content of the
  entry \<^verbatim>\<open>n.json\<close>; \<open>None\<close> when there is nothing to read.
\<close>

definition disk_value :: "dire \<Rightarrow> string \<Rightarrow> json option" where
  "disk_value s n =
     (case readFile s (file_of n) of Some (Wrapper w) \<Rightarrow> map_of w n | _ \<Rightarrow> None)"

subsection \<open>The methods of the class\<close>

text \<open>\<^verbatim>\<open>this.modifiedCollections.add(collectionName)\<close>\<close>

definition markCollectionAsModified :: "string \<Rightarrow> dire \<Rightarrow> dire" where
  "markCollectionAsModified n s =
     s\<lparr>modifiedCollections :=
         (if n \<in> set (modifiedCollections s) then modifiedCollections s
          else modifiedCollections s @ [n])\<rparr>"

text \<open>
  \<^verbatim>\<open>JSON.parse\<close> of an array: every element that is an object or an array becomes a new
  record object.
\<close>

fun parse_elems :: "json list \<Rightarrow> json list \<Rightarrow> elem list \<times> json list" where
  "parse_elems [] os = ([], os)"
| "parse_elems (j # js) os =
     (case j of
        JNull \<Rightarrow> (let (es, os') = parse_elems js os in (ENull # es, os'))
      | JBool b \<Rightarrow> (let (es, os') = parse_elems js os in (EBool b # es, os'))
      | JNum i \<Rightarrow> (let (es, os') = parse_elems js os in (ENum i # es, os'))
      | JStr t \<Rightarrow> (let (es, os') = parse_elems js os in (EStr t # es, os'))
      | _ \<Rightarrow> (let (es, os') = parse_elems js (os @ [j]) in (ERef (length os) # es, os')))"

text \<open>\<^verbatim>\<open>this.data[collectionName] = fileData[collectionName]\<close>, for the parsed content \<open>w\<close>.\<close>

definition install :: "string \<Rightarrow> (string \<times> json) list \<Rightarrow> dire \<Rightarrow> dire" where
  "install n w s =
     (case map_of w n of
        None \<Rightarrow> s\<lparr>data := (data s)(n := None)\<rparr>
      | Some (JArr js) \<Rightarrow>
          (let (es, os') = parse_elems js (heap_objects s)
           in s\<lparr>data := (data s)(n \<mapsto> SArr (length (heap_arrays s))),
                heap_arrays := heap_arrays s @ [es],
                heap_objects := os'\<rparr>)
      | Some j \<Rightarrow> s\<lparr>data := (data s)(n \<mapsto> SOther j)\<rparr>)"

text \<open>
  The loop of \<^verbatim>\<open>load\<close> over the directory listing: one step for each entry, in the
  order of the list. The flag is False when a file raised: the loop stops there and keeps
  what it has loaded so far. (The entries of a directory have no separator in their
  names, so \<^verbatim>\<open>path.join(this.directoryPath, file)\<close> is the entry itself.)
\<close>

fun load_files :: "string list \<Rightarrow> dire \<Rightarrow> bool \<times> dire" where
  "load_files [] s = (True, s)"
| "load_files (f # fs) s =
     (if endsWith f ''.json'' then
        (case readFile s f of
           Some (Wrapper w) \<Rightarrow> load_files fs (install (basename f ''.json'') w s)
         | _ \<Rightarrow> (False, s))
      else load_files fs s)"

text \<open>\<^verbatim>\<open>load()\<close>, from the call to the settling of its promise, with no other call in between.\<close>

definition load :: "io \<Rightarrow> dire \<Rightarrow> dire" where
  "load e s =
     (if readdir_fails e then s
      else (case load_files (readdir s) s of
              (True, s') \<Rightarrow> s'\<lparr>isLoaded := True\<rparr>
            | (False, s') \<Rightarrow> s'))"

text \<open>
  \<^verbatim>\<open>JSON.stringify({ [collectionName]: this.data[collectionName] })\<close>: a property whose
  value is \<^verbatim>\<open>undefined\<close> is left out.
\<close>

definition wrapper_of :: "dire \<Rightarrow> string \<Rightarrow> fcontent" where
  "wrapper_of s n = Wrapper (case mem_value s n of None \<Rightarrow> [] | Some j \<Rightarrow> [(n, j)])"

text \<open>
  The loop of \<^verbatim>\<open>save\<close> over the modified names, inside the \<^verbatim>\<open>try\<close>. The flag is False
  when a write raised: the loop stops there. A write that raises leaves its file as it
  was.
\<close>

fun save_files :: "io \<Rightarrow> string list \<Rightarrow> dire \<Rightarrow> bool \<times> dire" where
  "save_files e [] s = (True, s)"
| "save_files e (n # ns) s =
     (if write_fails e (target (directoryPath s) n) then (False, s)
      else save_files e ns (write_path (entry_of (directoryPath s) n) (wrapper_of s n) s))"

text \<open>
  \<^verbatim>\<open>save()\<close>, from the call to the settling of its promise, with no other call in
  between: the set is cleared after the last write, and not at all when a write raised.
\<close>

definition save :: "io \<Rightarrow> dire \<Rightarrow> dire" where
  "save e s =
     (case save_files e (modifiedCollections s) s of
        (True, s') \<Rightarrow> s'\<lparr>modifiedCollections := []\<rparr>
      | (False, s') \<Rightarrow> s')"

text \<open>
  The constructor: a new instance over the directory. The heap and the directory are
  those of the state it is created in. The constructor calls \<^verbatim>\<open>this.load()\<close> and does not
  await it: when the constructor returns, that load has asked for the listing of the
  directory and has done nothing else. \<open>load e (Dire s)\<close> is the instance when that load
  has finished and nothing else has run.
\<close>

definition Dire :: "dire \<Rightarrow> dire" where
  "Dire s = s\<lparr>data := Map.empty, modifiedCollections := [], isLoaded := False\<rparr>"

text \<open>\<^verbatim>\<open>add(collectionName, items = [])\<close>: an omitted \<^verbatim>\<open>items\<close> is a new empty array.\<close>

definition add :: "string \<Rightarrow> slot option \<Rightarrow> dire \<Rightarrow> dire" where
  "add n items s =
     markCollectionAsModified n
       (case items of
          None \<Rightarrow> s\<lparr>data := (data s)(n \<mapsto> SArr (length (heap_arrays s))),
                    heap_arrays := heap_arrays s @ [[]]\<rparr>
        | Some v \<Rightarrow> s\<lparr>data := (data s)(n \<mapsto> v)\<rparr>)"

text \<open>\<^verbatim>\<open>drop(collectionName)\<close>: a failure of \<^verbatim>\<open>unlink\<close> is caught and logged.\<close>

definition drop_dire :: "io \<Rightarrow> string \<Rightarrow> dire \<Rightarrow> dire" where
  "drop_dire e n s =
     (let s' = s\<lparr>data := (data s)(n := None)\<rparr>
      in if unlink_fails e (target (directoryPath s) n) then s'
         else unlink_path (entry_of (directoryPath s) n) s')"

text \<open>
  The argument \<^verbatim>\<open>items\<close> of \<^verbatim>\<open>insert\<close>: an array (by reference), or a single item,
  which \<^verbatim>\<open>insert\<close> wraps into an array.
\<close>

datatype items = Many addr | One elem

text \<open>
  \<^verbatim>\<open>items.forEach((item) => { collection.push(item); })\<close>: \<^verbatim>\<open>push\<close> raises when
  \<^verbatim>\<open>collection\<close> is not an array. Nothing is pushed before the first \<^verbatim>\<open>push\<close> raises.
\<close>

fun push_each :: "slot option \<Rightarrow> elem list \<Rightarrow> elem list list \<Rightarrow> fault + elem list list" where
  "push_each c [] h = Inr h"
| "push_each c (x # xs) h =
     (case c of
        Some (SArr a) \<Rightarrow>
          (if a < length h then push_each c xs (h[a := h ! a @ [x]]) else Inl TypeError)
      | _ \<Rightarrow> Inl TypeError)"

text \<open>
  \<^verbatim>\<open>forEach\<close> visits the elements the array had when the loop started, so the items of
  an array that is the collection itself are read before the first \<^verbatim>\<open>push\<close>.
\<close>

fun items_of :: "elem list list \<Rightarrow> items \<Rightarrow> elem list option" where
  "items_of h (Many a) = array_at h a"
| "items_of h (One x) = Some [x]"

definition insert_dire :: "string \<Rightarrow> items \<Rightarrow> dire \<Rightarrow> fault + dire" where
  "insert_dire n its s =
     (case items_of (heap_arrays s) its of
        None \<Rightarrow> Inl TypeError
      | Some xs \<Rightarrow>
          (case push_each (data s n) xs (heap_arrays s) of
             Inl err \<Rightarrow> Inl err
           | Inr h \<Rightarrow> Inr (markCollectionAsModified n (s\<lparr>heap_arrays := h\<rparr>))))"

text \<open>\<^verbatim>\<open>updateFunction(item)\<close> on one item: only a record object can be changed.\<close>

fun apply_update :: "updateFunction \<Rightarrow> elem \<Rightarrow> json list \<Rightarrow> json list" where
  "apply_update u (ERef a) os = (if a < length os then os[a := u (os ! a)] else os)"
| "apply_update u x os = os"

text \<open>
  \<^verbatim>\<open>collection.forEach((item) => { if (filterFunction(item)) updateFunction(item); })\<close>.
  An omitted \<^verbatim>\<open>updateFunction\<close> raises at the first item that matches.
\<close>

fun update_each ::
  "filterFunction \<Rightarrow> updateFunction option \<Rightarrow> elem list \<Rightarrow> json list \<Rightarrow> fault + json list" where
  "update_each p u [] os = Inr os"
| "update_each p u (x # xs) os =
     (if p os x then
        (case u of None \<Rightarrow> Inl TypeError | Some f \<Rightarrow> update_each p u xs (apply_update f x os))
      else update_each p u xs os)"

text \<open>The default of an omitted \<^verbatim>\<open>filterFunction\<close>: \<^verbatim>\<open>() => true\<close>.\<close>

definition match_all :: filterFunction where
  "match_all os x = True"

definition update ::
  "string \<Rightarrow> filterFunction option \<Rightarrow> updateFunction option \<Rightarrow> dire \<Rightarrow> fault + dire" where
  "update n p u s =
     (case collection s n of
        None \<Rightarrow> Inl TypeError
      | Some xs \<Rightarrow>
          (case update_each (case p of None \<Rightarrow> match_all | Some q \<Rightarrow> q) u xs (heap_objects s) of
             Inl err \<Rightarrow> Inl err
           | Inr os \<Rightarrow> Inr (markCollectionAsModified n (s\<lparr>heap_objects := os\<rparr>))))"

text \<open>
  \<^verbatim>\<open>find\<close>: \<^verbatim>\<open>collection.filter(filterFunction)\<close> is a new array; the result is its
  address and the state with that array allocated.
\<close>

definition find_dire :: "string \<Rightarrow> filterFunction option \<Rightarrow> dire \<Rightarrow> fault + (addr \<times> dire)" where
  "find_dire n p s =
     (case collection s n of
        None \<Rightarrow> Inl TypeError
      | Some xs \<Rightarrow>
          Inr (length (heap_arrays s),
               s\<lparr>heap_arrays := heap_arrays s @
                    [filter ((case p of None \<Rightarrow> match_all | Some q \<Rightarrow> q) (heap_objects s)) xs]\<rparr>))"

text \<open>
  \<^verbatim>\<open>findOne\<close>: \<^verbatim>\<open>collection.find(filterFunction) || null\<close>. There is no default for
  \<^verbatim>\<open>filterFunction\<close>, and \<^verbatim>\<open>Array.prototype.find\<close> raises a TypeError when its argument
  is not a function.
\<close>

definition findOne :: "string \<Rightarrow> filterFunction option \<Rightarrow> dire \<Rightarrow> fault + elem" where
  "findOne n p s =
     (case collection s n of
        None \<Rightarrow> Inl TypeError
      | Some xs \<Rightarrow>
          (case p of
             None \<Rightarrow> Inl TypeError
           | Some q \<Rightarrow>
               (case List.find (q (heap_objects s)) xs of
                  None \<Rightarrow> Inr ENull
                | Some x \<Rightarrow> Inr (if truthy x then x else ENull))))"

text \<open>\<^verbatim>\<open>delete\<close>: the collection becomes a new array of the items that do not match.\<close>

definition delete :: "string \<Rightarrow> filterFunction option \<Rightarrow> dire \<Rightarrow> fault + dire" where
  "delete n p s =
     (case collection s n of
        None \<Rightarrow> Inl TypeError
      | Some xs \<Rightarrow>
          Inr (markCollectionAsModified n
                 (s\<lparr>data := (data s)(n \<mapsto> SArr (length (heap_arrays s))),
                    heap_arrays := heap_arrays s @
                      [filter (\<lambda>item. \<not> (case p of None \<Rightarrow> match_all | Some q \<Rightarrow> q) (heap_objects s) item) xs]\<rparr>)))"

subsection \<open>The caller\<close>

text \<open>
  What a caller does outside the class. An array literal \<^verbatim>\<open>[{...}, {...}]\<close> allocates its
  record objects and the array, as \<^verbatim>\<open>JSON.parse\<close> does for an array it reads.
\<close>

definition new_array :: "json list \<Rightarrow> dire \<Rightarrow> addr \<times> dire" where
  "new_array js s =
     (let (es, os') = parse_elems js (heap_objects s)
      in (length (heap_arrays s), s\<lparr>heap_arrays := heap_arrays s @ [es], heap_objects := os'\<rparr>))"

text \<open>
  An assignment \<^verbatim>\<open>o[k] = v\<close> to a property of the record object at \<open>a\<close>, and a
  \<^verbatim>\<open>push\<close> onto the array at \<open>a\<close>, by a caller that holds the reference.
\<close>

fun set_property :: "string \<Rightarrow> json \<Rightarrow> json \<Rightarrow> json" where
  "set_property k v (JObj fs) =
     JObj (if k \<in> fst ` set fs then map (\<lambda>p. if fst p = k then (k, v) else p) fs
           else fs @ [(k, v)])"
| "set_property k v j = j"


definition caller_push :: "addr \<Rightarrow> elem \<Rightarrow> dire \<Rightarrow> dire" where
  "caller_push a x s = s\<lparr>heap_arrays := (heap_arrays s)[a := heap_arrays s ! a @ [x]]\<rparr>"

subsection \<open>Sequences of calls\<close>

text \<open>
  The public operations, and the store after a sequence of calls that do not overlap:
  each call, with the environment it runs in, starts when the one before it has settled.
  (A tick of the autosave timer is a \<open>Save\<close> of the sequence.) A call that raises (the
  promise is rejected) leaves the store as it was; \<open>findOne\<close> changes nothing, and \<open>find\<close>
  only allocates its result.
\<close>

datatype operation =
    Add string "slot option"
  | Drop string
  | Insert string items
  | Update string "filterFunction option" "updateFunction option"
  | Find string "filterFunction option"
  | FindOne string "filterFunction option"
  | Delete string "filterFunction option"
  | Save
  | Load

fun step :: "io \<Rightarrow> operation \<Rightarrow> dire \<Rightarrow> dire" where
  "step e (Add n items) s = add n items s"
| "step e (Drop n) s = drop_dire e n s"
| "step e (Insert n its) s = (case insert_dire n its s of Inl err \<Rightarrow> s | Inr s' \<Rightarrow> s')"
| "step e (Update n p u) s = (case update n p u s of Inl err \<Rightarrow> s | Inr s' \<Rightarrow> s')"
| "step e (Find n p) s = (case find_dire n p s of Inl err \<Rightarrow> s | Inr r \<Rightarrow> snd r)"
| "step e (FindOne n p) s = s"
| "step e (Delete n p) s = (case delete n p s of Inl err \<Rightarrow> s | Inr s' \<Rightarrow> s')"
| "step e Save s = save e s"
| "step e Load s = load e s"

fun run :: "(io \<times> operation) list \<Rightarrow> dire \<Rightarrow> dire" where
  "run [] s = s"
| "run (c # cs) s = run cs (step (fst c) (snd c) s)"

subsection \<open>The fixture of the test suite\<close>

text \<open>
  The directory \<^verbatim>\<open>tests/db\<close> the tests start from: one file \<^verbatim>\<open>users.json\<close> with
  two users, John and Jane (the tests expect two users and read the name, surname and age
  of Jane), and the store \<^verbatim>\<open>new Dire("./tests/db", 5000)\<close> over it, once the load
  that the constructor starts has finished. (The path of the directory is taken from
  the working directory.)
\<close>

definition test_world :: dire where
  "test_world =
     \<lparr>directoryPath = [''tests'', ''db''], data = Map.empty, modifiedCollections = [], isLoaded = False,
      heap_arrays = [], heap_objects = [],
      dir_files =
        [(''users.json'',
          Wrapper [(''users'',
            JArr [JObj [(''name'', JStr ''John''), (''surname'', JStr ''Doe''), (''age'', JNum 29)],
                  JObj [(''name'', JStr ''Jane''), (''surname'', JStr ''Doe''), (''age'', JNum 29)]])])]\<rparr>"

definition test_db :: dire where
  "test_db = load io_ok (Dire test_world)"

text \<open>The callback \<^verbatim>\<open>(user) => user.name === t\<close> of the tests.\<close>

fun field :: "string \<Rightarrow> json \<Rightarrow> json option" where
  "field k (JObj fs) = map_of fs k"
| "field k j = None"

definition name_is :: "string \<Rightarrow> filterFunction" where
  "name_is t os x = (field ''name'' (json_of_elem os x) = Some (JStr t))"

text \<open>
  The array \<^verbatim>\<open>petsData\<close> of the test that adds the collection \<^verbatim>\<open>pets\<close>; the store
  after the caller has evaluated the literal, and after \<^verbatim>\<open>db.add('pets', petsData)\<close>.
\<close>

definition petsData :: "json list" where
  "petsData =
     [JObj [(''name'', JStr ''Oreo''), (''species'', JStr ''Cat''), (''chonky'', JBool True)],
      JObj [(''name'', JStr ''Siria''), (''species'', JStr ''Dog''), (''chonky'', JBool False)]]"

definition pets_literal :: dire where
  "pets_literal = snd (new_array petsData test_db)"

definition pets_added :: dire where
  "pets_added = add ''pets'' (Some (SArr (fst (new_array petsData test_db)))) pets_literal"

text \<open>
  Two collections that wait for the next \<^verbatim>\<open>save\<close>, \<^verbatim>\<open>pets\<close> before \<^verbatim>\<open>toys\<close>, and
  environments in which the file of one of them cannot be written.
\<close>

definition two_unsaved :: dire where
  "two_unsaved = add ''toys'' None pets_added"

definition toys_unwritable :: io where
  "toys_unwritable = io_ok\<lparr>write_fails := (\<lambda>p. p = [''tests'', ''db'', ''toys.json''])\<rparr>"

definition pets_unwritable :: io where
  "pets_unwritable = io_ok\<lparr>write_fails := (\<lambda>p. p = [''tests'', ''db'', ''pets.json''])\<rparr>"

text \<open>The two users of \<^verbatim>\<open>users.json\<close>, and the user the test of \<^verbatim>\<open>insert\<close> adds.\<close>

definition john :: json where
  "john = JObj [(''name'', JStr ''John''), (''surname'', JStr ''Doe''), (''age'', JNum 29)]"

definition jane :: json where
  "jane = JObj [(''name'', JStr ''Jane''), (''surname'', JStr ''Doe''), (''age'', JNum 29)]"







text \<open>
  Stores in which a collection has unsaved changes that no call has marked: after
  \<^verbatim>\<open>db.add('staff', db.data.users)\<close>, a \<open>save\<close> and an \<open>insert\<close> into \<^verbatim>\<open>users\<close>; after
  \<^verbatim>\<open>db.add('./users')\<close> and a \<open>save\<close>; after a \<open>drop\<close> whose \<^verbatim>\<open>unlink\<close> fails; and a
  store constructed over a directory with a file that cannot be parsed.
\<close>

definition share_then_insert :: "(io \<times> operation) list" where
  "share_then_insert =
     [(io_ok, Add ''staff'' (Some (SArr 0))), (io_ok, Save),
      (io_ok, Insert ''users'' (One (EStr ''Eve'')))]"

definition dotted_then_save :: "(io \<times> operation) list" where
  "dotted_then_save = [(io_ok, Add ''./users'' None), (io_ok, Save)]"

definition drop_undeletable :: "(io \<times> operation) list" where
  "drop_undeletable = [(io_ok\<lparr>unlink_fails := (\<lambda>f. True)\<rparr>, Drop ''users'')]"

definition broken_world :: dire where
  "broken_world = test_world\<lparr>dir_files := (''broken.json'', Unparsable) # dir_files test_world\<rparr>"

text \<open>\<^verbatim>\<open>db.add('recent', await db.find('users'))\<close>: a new array of the same records.\<close>

definition copy_then_update :: "(io \<times> operation) list" where
  "copy_then_update =
     [(io_ok, Find ''users'' None), (io_ok, Add ''recent'' (Some (SArr 1)))]"

subsection \<open>Notions used in the statements and proofs\<close>


text \<open>
  \<open>unsaved s n\<close>: the collection \<open>n\<close> has changes in memory that its file does not
  reflect, that is, \<^verbatim>\<open>this.data[n]\<close> is not what a \<open>load\<close> would read for \<open>n\<close>.
\<close>

definition unsaved :: "dire \<Rightarrow> string \<Rightarrow> bool" where
  "unsaved s n \<longleftrightarrow> mem_value s n \<noteq> disk_value s n"









definition separate :: "dire \<Rightarrow> bool" where
  "separate s \<longleftrightarrow>
     (\<forall>n a. data s n = Some (SArr a) \<longrightarrow>
        a < length (heap_arrays s) \<and>
        (\<forall>r. ERef r \<in> set (heap_arrays s ! a) \<longrightarrow> r < length (heap_objects s))) \<and>
     (\<forall>n m a b. n \<noteq> m \<and> data s n = Some (SArr a) \<and> data s m = Some (SArr b) \<longrightarrow>
        a \<noteq> b \<and> (\<forall>r. ERef r \<in> set (heap_arrays s ! a) \<longrightarrow> ERef r \<notin> set (heap_arrays s ! b)))"


section \<open>Properties\<close>

subsection \<open>Basic facts\<close>

lemma io_ok_simps [simp]:
  "\<not> readdir_fails io_ok" "\<not> write_fails io_ok f" "\<not> unlink_fails io_ok f"
  by (simp_all add: io_ok_def)

lemma mark_fields [simp]:
  "directoryPath (markCollectionAsModified n s) = directoryPath s"
  "data (markCollectionAsModified n s) = data s"
  "heap_arrays (markCollectionAsModified n s) = heap_arrays s"
  "heap_objects (markCollectionAsModified n s) = heap_objects s"
  "dir_files (markCollectionAsModified n s) = dir_files s"
  "isLoaded (markCollectionAsModified n s) = isLoaded s"
  by (simp_all add: markCollectionAsModified_def)

lemma set_mark [simp]:
  "set (modifiedCollections (markCollectionAsModified n s)) = insert n (set (modifiedCollections s))"
  by (auto simp: markCollectionAsModified_def)

lemma collection_markCollectionAsModified [simp]:
  "collection (markCollectionAsModified n s) m = collection s m"
  by (simp add: collection_def)

lemma collection_SomeD:
  assumes "collection s n = Some xs"
  shows "\<exists>a. data s n = Some (SArr a) \<and> a < length (heap_arrays s) \<and> heap_arrays s ! a = xs"
  using assms
  by (cases "(heap_arrays s, data s n)" rule: array_of.cases)
     (auto simp: collection_def array_at_def split: if_splits)

lemma collection_after_alloc:
  assumes "collection s n = Some xs"
  shows "collection (s\<lparr>heap_arrays := heap_arrays s @ [zs]\<rparr>) n = Some xs"
proof -
  obtain a where "data s n = Some (SArr a)" "a < length (heap_arrays s)" "heap_arrays s ! a = xs"
    using collection_SomeD [OF assms] by blast
  then show ?thesis
    by (simp add: collection_def array_at_def nth_append)
qed

lemma update_each_with_function:
  "\<exists>os'. update_each p (Some f) xs os = Inr os'"
  by (induction xs arbitrary: os) auto

text \<open>The store of the tests, evaluated: the two users are the record objects 0 and 1.\<close>

lemma test_db_eq:
  "test_db =
     \<lparr>directoryPath = [''tests'', ''db''], data = [''users'' \<mapsto> SArr 0], modifiedCollections = [], isLoaded = True,
      heap_arrays = [[ERef 0, ERef 1]],
      heap_objects =
        [JObj [(''name'', JStr ''John''), (''surname'', JStr ''Doe''), (''age'', JNum 29)],
         JObj [(''name'', JStr ''Jane''), (''surname'', JStr ''Doe''), (''age'', JNum 29)]],
      dir_files = dir_files test_world\<rparr>"
  by (simp add: test_db_def test_world_def Dire_def load_def io_ok_def readdir_def endsWith_def
      readFile_def install_def basename_def)

lemma collection_test_db: "collection test_db ''users'' = Some [ERef 0, ERef 1]"
  by (simp add: test_db_eq collection_def array_at_def)

subsection \<open>Queries\<close>

text \<open>
  Claim C5. For an existing collection \<open>C\<close> with records \<open>xs\<close> and a predicate \<open>P\<close>,
  \<open>find(C, P)\<close> returns a new array that holds exactly the records of \<open>xs\<close> that satisfy
  \<open>P\<close>, in the order of \<open>xs\<close>, and \<open>find(C)\<close> without a predicate returns all of \<open>xs\<close>. The
  store keeps its collections.
\<close>

theorem find_subsequence:
  assumes "collection s C = Some xs"
  shows "(case find_dire C (Some P) s of
            Inl err \<Rightarrow> False
          | Inr (a, s') \<Rightarrow>
              array_at (heap_arrays s') a = Some (filter (P (heap_objects s)) xs) \<and>
              data s' = data s \<and>
              (\<forall>n ys. collection s n = Some ys \<longrightarrow> collection s' n = Some ys)) \<and>
         (case find_dire C None s of
            Inl err \<Rightarrow> False
          | Inr (a, s') \<Rightarrow> array_at (heap_arrays s') a = Some xs)"
  using assms collection_after_alloc
  by (simp add: find_dire_def array_at_def match_all_def)

theorem find_subsequence_witness:
  "collection test_db ''users'' = Some [ERef 0, ERef 1] \<and>
   (case find_dire ''users'' (Some (name_is ''Jane'')) test_db of
      Inl err \<Rightarrow> False
    | Inr (a, s') \<Rightarrow> array_at (heap_arrays s') a = Some [ERef 1]) \<and>
   (case find_dire ''users'' None test_db of
      Inl err \<Rightarrow> False
    | Inr (a, s') \<Rightarrow> array_at (heap_arrays s') a = Some [ERef 0, ERef 1])"
  using find_subsequence [OF collection_test_db, of "name_is ''Jane''"]
  by (simp add: test_db_eq name_is_def collection_def array_at_def find_dire_def match_all_def)

text \<open>
  Claim C6. For an existing collection \<open>C\<close> with records \<open>xs\<close> and a predicate \<open>P\<close>,
  \<open>delete(C, P)\<close> leaves \<open>C\<close> with exactly the records of \<open>xs\<close> that do not satisfy \<open>P\<close>, in
  the order of \<open>xs\<close>, and a \<open>find(C)\<close> after it returns them; \<open>delete(C)\<close> without a predicate
  leaves \<open>C\<close> empty.
\<close>

theorem delete_keeps_non_matching:
  assumes "collection s C = Some xs"
  shows "(case delete C (Some P) s of
            Inl err \<Rightarrow> False
          | Inr s' \<Rightarrow>
              collection s' C = Some (filter (\<lambda>x. \<not> P (heap_objects s) x) xs) \<and>
              (case find_dire C None s' of
                 Inl err \<Rightarrow> False
               | Inr (a, s'') \<Rightarrow>
                   array_at (heap_arrays s'') a = Some (filter (\<lambda>x. \<not> P (heap_objects s) x) xs))) \<and>
         (case delete C None s of
            Inl err \<Rightarrow> False
          | Inr s' \<Rightarrow> collection s' C = Some [])"
proof -
  let ?ys = "filter (\<lambda>x. \<not> P (heap_objects s) x) xs"
  let ?s' = "markCollectionAsModified C
               (s\<lparr>data := (data s)(C \<mapsto> SArr (length (heap_arrays s))),
                  heap_arrays := heap_arrays s @ [?ys]\<rparr>)"
  have d: "delete C (Some P) s = Inr ?s'"
    using assms by (simp add: delete_def)
  have c: "collection ?s' C = Some ?ys"
    by (simp add: collection_def array_at_def)
  have f: "find_dire C None ?s' =
             Inr (length (heap_arrays ?s'), ?s'\<lparr>heap_arrays := heap_arrays ?s' @ [?ys]\<rparr>)"
    using c by (simp add: find_dire_def match_all_def)
  have a: "array_at (heap_arrays ?s' @ [?ys]) (length (heap_arrays ?s')) = Some ?ys"
    by (simp add: array_at_def nth_append)
  have n: "case delete C None s of Inl err \<Rightarrow> False | Inr s' \<Rightarrow> collection s' C = Some []"
    using assms by (simp add: delete_def match_all_def collection_def array_at_def)
  show ?thesis
    using d c f a n by simp
qed

theorem delete_keeps_non_matching_witness:
  "collection test_db ''users'' = Some [ERef 0, ERef 1] \<and>
   (case delete ''users'' (Some (name_is ''Jane'')) test_db of
      Inl err \<Rightarrow> False
    | Inr s' \<Rightarrow>
        collection s' ''users'' = Some [ERef 0] \<and>
        (case find_dire ''users'' None s' of
           Inl err \<Rightarrow> False
         | Inr (a, s'') \<Rightarrow> array_at (heap_arrays s'') a = Some [ERef 0])) \<and>
   (case delete ''users'' None test_db of
      Inl err \<Rightarrow> False
    | Inr s' \<Rightarrow> collection s' ''users'' = Some [])"
  using delete_keeps_non_matching [OF collection_test_db, of "name_is ''Jane''"]
  by (simp add: test_db_eq name_is_def collection_def array_at_def delete_def find_dire_def
      markCollectionAsModified_def match_all_def)

text \<open>
  Claim C7. For an existing collection \<open>C\<close> of records \<open>xs\<close> and a predicate \<open>P\<close>,
  \<open>findOne(C, P)\<close> returns \<open>null\<close> when no record satisfies \<open>P\<close>, and otherwise the first
  record of \<open>xs\<close> that satisfies \<open>P\<close>: the one with no record satisfying \<open>P\<close> before it.
  A record is an object, and an object is truthy, so \<^verbatim>\<open>|| null\<close> returns the record
  found; the hypothesis \<open>truthy\<close> is what the proof needs of a record.
\<close>

theorem findOne_first_match:
  assumes "collection s C = Some xs" and "\<forall>x \<in> set xs. truthy x"
  shows "((\<forall>x \<in> set xs. \<not> P (heap_objects s) x) \<longrightarrow> findOne C (Some P) s = Inr ENull) \<and>
         (\<forall>ys x zs. xs = ys @ x # zs \<and> P (heap_objects s) x \<and> (\<forall>y \<in> set ys. \<not> P (heap_objects s) y)
            \<longrightarrow> findOne C (Some P) s = Inr x)"
proof (intro conjI allI impI)
  assume "\<forall>x \<in> set xs. \<not> P (heap_objects s) x"
  then have "List.find (P (heap_objects s)) xs = None"
    by (simp add: find_None_iff)
  then show "findOne C (Some P) s = Inr ENull"
    using assms(1) by (simp add: findOne_def)
next
  fix ys x zs
  assume h: "xs = ys @ x # zs \<and> P (heap_objects s) x \<and> (\<forall>y \<in> set ys. \<not> P (heap_objects s) y)"
  then have "List.find (P (heap_objects s)) xs = Some x"
    by (induction ys arbitrary: xs) auto
  moreover have "truthy x"
    using h assms(2) by simp
  ultimately show "findOne C (Some P) s = Inr x"
    using assms(1) by (simp add: findOne_def)
qed

theorem findOne_first_match_witness:
  "collection test_db ''users'' = Some [ERef 0, ERef 1] \<and>
   findOne ''users'' (Some (name_is ''Jane'')) test_db = Inr (ERef 1) \<and>
   findOne ''users'' (Some (name_is ''Eve'')) test_db = Inr ENull"
proof -
  have t: "\<forall>x \<in> set [ERef 0, ERef 1]. truthy x"
    by simp
  have o: "heap_objects test_db =
             [JObj [(''name'', JStr ''John''), (''surname'', JStr ''Doe''), (''age'', JNum 29)],
              JObj [(''name'', JStr ''Jane''), (''surname'', JStr ''Doe''), (''age'', JNum 29)]]"
    by (simp add: test_db_eq)
  have "findOne ''users'' (Some (name_is ''Jane'')) test_db = Inr (ERef 1)"
    using findOne_first_match [OF collection_test_db t, of "name_is ''Jane''", THEN conjunct2,
        rule_format, of "[ERef 0]" "ERef 1" "[]"]
    by (simp add: o name_is_def)
  moreover have "findOne ''users'' (Some (name_is ''Eve'')) test_db = Inr ENull"
    using findOne_first_match [OF collection_test_db t, of "name_is ''Eve''", THEN conjunct1]
    by (simp add: o name_is_def)
  ultimately show ?thesis
    using collection_test_db by simp
qed

text \<open>
  Claim C9. \<open>findOne\<close> has no default for its predicate: on an existing collection \<open>C\<close>,
  \<open>findOne(C)\<close> without a predicate raises a TypeError, whatever the collection holds.
  \<open>find(C)\<close>, \<open>delete(C)\<close> and \<open>update(C, undefined, u)\<close> do not raise: \<open>find\<close> returns every
  record, \<open>delete\<close> removes every record, and \<open>update\<close> runs as with the predicate that is
  always true.
\<close>

theorem findOne_has_no_default_predicate:
  assumes "collection s C = Some xs"
  shows "findOne C None s = Inl TypeError \<and>
         (case find_dire C None s of
            Inl err \<Rightarrow> False
          | Inr (a, s') \<Rightarrow> array_at (heap_arrays s') a = Some xs) \<and>
         (case delete C None s of Inl err \<Rightarrow> False | Inr s' \<Rightarrow> collection s' C = Some []) \<and>
         (case update C None (Some u) s of Inl err \<Rightarrow> False | Inr s' \<Rightarrow> True) \<and>
         update C None (Some u) s = update C (Some (\<lambda>os x. True)) (Some u) s"
proof -
  have 1: "findOne C None s = Inl TypeError"
    using assms by (simp add: findOne_def)
  have 2: "case find_dire C None s of
             Inl err \<Rightarrow> False
           | Inr (a, s') \<Rightarrow> array_at (heap_arrays s') a = Some xs"
    using assms by (simp add: find_dire_def match_all_def array_at_def)
  have 3: "case delete C None s of Inl err \<Rightarrow> False | Inr s' \<Rightarrow> collection s' C = Some []"
    using assms by (simp add: delete_def match_all_def collection_def array_at_def)
  obtain os' where "update_each match_all (Some u) xs (heap_objects s) = Inr os'"
    using update_each_with_function by blast
  then have 4: "case update C None (Some u) s of Inl err \<Rightarrow> False | Inr s' \<Rightarrow> True"
    using assms by (simp add: update_def)
  have "match_all = (\<lambda>os x. True)"
    by (simp add: match_all_def fun_eq_iff)
  then have 5: "update C None (Some u) s = update C (Some (\<lambda>os x. True)) (Some u) s"
    by (simp add: update_def split: option.splits)
  show ?thesis
    using 1 2 3 4 5 by simp
qed

theorem findOne_has_no_default_predicate_witness:
  "collection test_db ''users'' = Some [ERef 0, ERef 1] \<and>
   findOne ''users'' None test_db = Inl TypeError \<and>
   (case find_dire ''users'' None test_db of
      Inl err \<Rightarrow> False
    | Inr (a, s') \<Rightarrow> array_at (heap_arrays s') a = Some [ERef 0, ERef 1])"
  using findOne_has_no_default_predicate [OF collection_test_db, of id] collection_test_db
  by simp

subsection \<open>The directory\<close>

lemma file_of_inj [simp]: "file_of n = file_of m \<longleftrightarrow> n = m"
  by (simp add: file_of_def)

lemma file_of_image [simp]: "file_of m \<in> file_of ` A \<longleftrightarrow> m \<in> A"
  by auto

lemma endsWith_file_of [simp]: "endsWith (file_of n) ''.json''"
  by (simp add: endsWith_def file_of_def)

lemma basename_file_of [simp]: "basename (file_of n) ''.json'' = n"
  by (simp add: basename_def file_of_def)


text \<open>The path of a plain name is the entry \<^verbatim>\<open>n.json\<close> of the directory.\<close>

lemma segments_plain: "plain n \<Longrightarrow> segments n = [n]"
  by (induction n) (auto simp: plain_def)

lemma plain_file_of: "plain n \<Longrightarrow> plain (file_of n)"
  by (simp add: plain_def file_of_def)

lemma file_of_segment: "file_of n \<noteq> [] \<and> file_of n \<noteq> ''.'' \<and> file_of n \<noteq> ''..''"
proof -
  have "length (file_of n) \<ge> 5"
    by (simp add: file_of_def)
  then show ?thesis
    by auto
qed

lemma target_plain: "plain n \<Longrightarrow> target dp n = dp @ [file_of n]"
  using file_of_segment [of n]
  by (simp add: target_def segments_plain plain_file_of norm_step_def)

lemma entry_of_plain [simp]: "plain n \<Longrightarrow> entry_of dp n = Some (file_of n)"
  by (simp add: entry_of_def target_plain)

lemma map_of_filter_fst:
  "map_of (filter (\<lambda>e. fst e \<noteq> f) xs) g = (if g = f then None else map_of xs g)"
  by (induction xs) auto

lemma map_of_replace:
  "map_of (map (\<lambda>p. if fst p = f then (f, c) else p) xs) g =
     (if g = f then map_option (\<lambda>v. c) (map_of xs f) else map_of xs g)"
  by (induction xs) auto

lemma map_of_key: "f \<in> fst ` set xs \<Longrightarrow> \<exists>v. map_of xs f = Some v"
  by (induction xs) auto

lemma map_of_append_new:
  "f \<notin> fst ` set xs \<Longrightarrow> map_of (xs @ [(f, c)]) g = (if g = f then Some c else map_of xs g)"
  by (induction xs) auto

lemma readFile_writeFile [simp]:
  "readFile (writeFile f c s) g = (if g = f then Some c else readFile s g)"
proof (cases "f \<in> fst ` set (dir_files s)")
  case True
  then obtain v where "map_of (dir_files s) f = Some v"
    using map_of_key by fastforce
  then show ?thesis
    using True by (simp add: readFile_def writeFile_def map_of_replace)
next
  case False
  then show ?thesis
    by (simp add: readFile_def writeFile_def map_of_append_new del: map_of_append)
qed

lemma readFile_unlink [simp]:
  "readFile (unlink f s) g = (if g = f then None else readFile s g)"
  by (simp add: readFile_def unlink_def map_of_filter_fst)

lemma readdir_readFile: "f \<in> set (readdir s) \<longleftrightarrow> readFile s f \<noteq> None"
  by (simp add: readdir_def readFile_def map_of_eq_None_iff)

lemma writeFile_fields [simp]:
  "directoryPath (writeFile f c s) = directoryPath s"
  "data (writeFile f c s) = data s"
  "heap_arrays (writeFile f c s) = heap_arrays s"
  "heap_objects (writeFile f c s) = heap_objects s"
  "modifiedCollections (writeFile f c s) = modifiedCollections s"
  "isLoaded (writeFile f c s) = isLoaded s"
  by (simp_all add: writeFile_def)

lemma unlink_fields [simp]:
  "directoryPath (unlink f s) = directoryPath s"
  "data (unlink f s) = data s"
  "heap_arrays (unlink f s) = heap_arrays s"
  "heap_objects (unlink f s) = heap_objects s"
  "modifiedCollections (unlink f s) = modifiedCollections s"
  "isLoaded (unlink f s) = isLoaded s"
  by (simp_all add: unlink_def)

lemma write_path_fields [simp]:
  "directoryPath (write_path x c s) = directoryPath s"
  "data (write_path x c s) = data s"
  "heap_arrays (write_path x c s) = heap_arrays s"
  "heap_objects (write_path x c s) = heap_objects s"
  "modifiedCollections (write_path x c s) = modifiedCollections s"
  "isLoaded (write_path x c s) = isLoaded s"
  by (cases x; simp)+

lemma unlink_path_fields [simp]:
  "directoryPath (unlink_path x s) = directoryPath s"
  "data (unlink_path x s) = data s"
  "heap_arrays (unlink_path x s) = heap_arrays s"
  "heap_objects (unlink_path x s) = heap_objects s"
  "modifiedCollections (unlink_path x s) = modifiedCollections s"
  "isLoaded (unlink_path x s) = isLoaded s"
  by (cases x; simp)+

lemma readFile_write_path:
  "readFile (write_path x c s) g = (if x = Some g then Some c else readFile s g)"
  by (cases x) auto


lemma wrapper_of_cong:
  "data s' = data s \<Longrightarrow> heap_arrays s' = heap_arrays s \<Longrightarrow> heap_objects s' = heap_objects s
   \<Longrightarrow> wrapper_of s' n = wrapper_of s n"
  by (simp add: wrapper_of_def mem_value_def)

lemma wrapper_of_write_path [simp]: "wrapper_of (write_path x c s) n = wrapper_of s n"
  by (rule wrapper_of_cong) simp_all

lemma wrapper_of_writeFile [simp]: "wrapper_of (writeFile f c s) n = wrapper_of s n"
  by (rule wrapper_of_cong) simp_all

lemma save_files_fields:
  "directoryPath (snd (save_files e ns s)) = directoryPath s \<and>
   data (snd (save_files e ns s)) = data s \<and>
   heap_arrays (snd (save_files e ns s)) = heap_arrays s \<and>
   heap_objects (snd (save_files e ns s)) = heap_objects s \<and>
   modifiedCollections (snd (save_files e ns s)) = modifiedCollections s \<and>
   isLoaded (snd (save_files e ns s)) = isLoaded s"
  by (induction ns arbitrary: s) auto

lemma save_files_other:
  "\<forall>n \<in> set ns. entry_of (directoryPath s) n \<noteq> Some f \<Longrightarrow>
   readFile (snd (save_files e ns s)) f = readFile s f"
  by (induction ns arbitrary: s) (auto simp: readFile_write_path)

lemma save_files_complete:
  "\<forall>m \<in> set ns. \<not> write_fails e (target (directoryPath s) m) \<Longrightarrow> fst (save_files e ns s)"
  by (induction ns arbitrary: s) auto

text \<open>
  The file of a plain name \<open>C\<close> holds what the last write to it left: the value of \<open>C\<close>,
  when no other name of the loop is written to that file.
\<close>

lemma save_files_last_writer:
  assumes "C \<in> set ns \<or> readFile s (file_of C) = Some (wrapper_of s C)"
    and "plain C"
    and "\<forall>D \<in> set ns. D \<noteq> C \<longrightarrow> entry_of (directoryPath s) D \<noteq> Some (file_of C)"
    and "\<forall>m \<in> set ns. \<not> write_fails e (target (directoryPath s) m)"
  shows "readFile (snd (save_files e ns s)) (file_of C) = Some (wrapper_of s C)"
  using assms
proof (induction ns arbitrary: s)
  case Nil
  then show ?case by simp
next
  case (Cons n ns)
  let ?s1 = "write_path (entry_of (directoryPath s) n) (wrapper_of s n) s"
  have step: "save_files e (n # ns) s = save_files e ns ?s1"
    using Cons.prems(4) by simp
  have r: "C \<in> set ns \<or> readFile ?s1 (file_of C) = Some (wrapper_of ?s1 C)"
  proof (cases "n = C")
    case True
    then show ?thesis
      using Cons.prems(2) by (simp add: readFile_write_path)
  next
    case False
    then have "entry_of (directoryPath s) n \<noteq> Some (file_of C)"
      using Cons.prems(3) by simp
    then show ?thesis
      using Cons.prems(1) False by (auto simp: readFile_write_path)
  qed
  have "readFile (snd (save_files e ns ?s1)) (file_of C) = Some (wrapper_of ?s1 C)"
    using Cons.prems(2,3,4) by (intro Cons.IH [OF r]) simp_all
  then show ?case
    by (simp only: step) simp
qed

lemma save_files_written:
  assumes "\<forall>m \<in> set ns. plain m \<and> \<not> write_fails e (target (directoryPath s) m)"
  shows "fst (save_files e ns s) \<and>
         (\<forall>m \<in> set ns. readFile (snd (save_files e ns s)) (file_of m) = Some (wrapper_of s m))"
proof (intro conjI ballI)
  show "fst (save_files e ns s)"
    using assms by (intro save_files_complete) simp
  fix m assume m: "m \<in> set ns"
  have "\<forall>D \<in> set ns. D \<noteq> m \<longrightarrow> entry_of (directoryPath s) D \<noteq> Some (file_of m)"
    using assms by simp
  then show "readFile (snd (save_files e ns s)) (file_of m) = Some (wrapper_of s m)"
    using assms m by (intro save_files_last_writer) simp_all
qed


lemma save_files_abort:
  assumes "\<forall>m \<in> set pre. \<not> write_fails e (target (directoryPath s) m)"
    and "write_fails e (target (directoryPath s) n)"
  shows "save_files e (pre @ n # post) s = (False, snd (save_files e pre s))"
  using assms by (induction pre arbitrary: s) auto

lemma disk_value_written:
  "readFile s (file_of m) = Some (wrapper_of t m) \<Longrightarrow> disk_value s m = mem_value t m"
  by (simp add: disk_value_def wrapper_of_def split: option.splits)


subsection \<open>Loading\<close>

lemma parse_elems_spec:
  "parse_elems js os = (es, os') \<Longrightarrow>
     (\<exists>ext. os' = os @ ext) \<and> map (json_of_elem os') es = js \<and>
     (\<forall>r. ERef r \<in> set es \<longrightarrow> r < length os')"
proof (induction js arbitrary: os es os')
  case Nil
  then show ?case by simp
next
  case (Cons j js)
  show ?case
  proof (cases "(\<exists>xs. j = JArr xs) \<or> (\<exists>fs. j = JObj fs)")
    case False
    obtain es1 os1 where p: "parse_elems js os = (es1, os1)"
      by (cases "parse_elems js os")
    from Cons.IH [OF p] have ih: "(\<exists>ext. os1 = os @ ext)" "map (json_of_elem os1) es1 = js"
      "\<forall>r. ERef r \<in> set es1 \<longrightarrow> r < length os1"
      by auto
    from False p Cons.prems show ?thesis
      using ih by (cases j) auto
  next
    case True
    obtain es1 os1 where p: "parse_elems js (os @ [j]) = (es1, os1)"
      by (cases "parse_elems js (os @ [j])")
    from Cons.IH [OF p] obtain ext where ih: "os1 = (os @ [j]) @ ext" "map (json_of_elem os1) es1 = js"
      "\<forall>r. ERef r \<in> set es1 \<longrightarrow> r < length os1"
      by auto
    from True p Cons.prems have e: "es = ERef (length os) # es1" "os' = os1"
      by auto
    have "json_of_elem os1 (ERef (length os)) = j"
      using ih(1) by (simp add: nth_append)
    then show ?thesis
      using e ih by auto
  qed
qed



lemma install_None:
  "map_of w n = None \<Longrightarrow> install n w s = s\<lparr>data := (data s)(n := None)\<rparr>"
  by (simp add: install_def)

lemma install_JArr:
  "map_of w n = Some (JArr js) \<Longrightarrow> parse_elems js (heap_objects s) = (es, os') \<Longrightarrow>
   install n w s =
     s\<lparr>data := (data s)(n \<mapsto> SArr (length (heap_arrays s))),
       heap_arrays := heap_arrays s @ [es], heap_objects := os'\<rparr>"
  by (simp add: install_def)

lemma install_other:
  "map_of w n = Some j \<Longrightarrow> \<forall>js. j \<noteq> JArr js \<Longrightarrow>
   install n w s = s\<lparr>data := (data s)(n \<mapsto> SOther j)\<rparr>"
  by (cases j) (simp_all add: install_def)

lemma install_cases:
  obtains (undefined) "install n w s = s\<lparr>data := (data s)(n := None)\<rparr>"
  | (array) js es ext where "map_of w n = Some (JArr js)"
      "parse_elems js (heap_objects s) = (es, heap_objects s @ ext)"
      "install n w s =
         s\<lparr>data := (data s)(n \<mapsto> SArr (length (heap_arrays s))),
           heap_arrays := heap_arrays s @ [es], heap_objects := heap_objects s @ ext\<rparr>"
  | (other) j where "install n w s = s\<lparr>data := (data s)(n \<mapsto> SOther j)\<rparr>"
proof (cases "map_of w n")
  case None
  then show ?thesis using undefined install_None by blast
next
  case (Some j)
  show ?thesis
  proof (cases "\<exists>js. j = JArr js")
    case False
    then show ?thesis using Some other install_other by blast
  next
    case True
    then obtain js where j: "j = JArr js" by blast
    obtain es os' where p: "parse_elems js (heap_objects s) = (es, os')"
      by (cases "parse_elems js (heap_objects s)")
    from parse_elems_spec [OF p] obtain ext where e: "os' = heap_objects s @ ext" by blast
    show ?thesis
      using array [of js es ext] install_JArr [of w n js s es os'] Some j p e by simp
  qed
qed

lemma install_fields [simp]:
  "directoryPath (install n w s) = directoryPath s"
  "dir_files (install n w s) = dir_files s"
  "modifiedCollections (install n w s) = modifiedCollections s"
  "isLoaded (install n w s) = isLoaded s"
  by (rule install_cases [of n w s]; simp)+

lemma readFile_install [simp]: "readFile (install n w s) f = readFile s f"
  by (simp add: readFile_def)










lemma save_snd:
  "dir_files (save e s) = dir_files (snd (save_files e (modifiedCollections s) s))"
  by (cases "save_files e (modifiedCollections s) s") (simp add: save_def split: bool.splits)

lemma readFile_save:
  "readFile (save e s) f = readFile (snd (save_files e (modifiedCollections s) s)) f"
  by (simp add: readFile_def save_snd)

lemma save_readFile_other:
  assumes "\<forall>n \<in> set (modifiedCollections s). entry_of (directoryPath s) n \<noteq> Some f"
  shows "readFile (save e s) f = readFile s f"
  using assms by (simp add: readFile_save save_files_other)

lemma save_fields [simp]:
  "directoryPath (save e s) = directoryPath s"
  "data (save e s) = data s"
  "heap_arrays (save e s) = heap_arrays s"
  "heap_objects (save e s) = heap_objects s"
  using save_files_fields [of e "modifiedCollections s" s]
  by (cases "save_files e (modifiedCollections s) s"; auto simp: save_def split: bool.splits)+




text \<open>
  Loads of a new instance over a directory whose file for \<open>C\<close> holds the records \<open>js\<close>
  and that has no unreadable \<^verbatim>\<open>.json\<close> file. The load of the constructor, then a second
  load; and any interleaving \<open>L\<close> of the file steps of a load with the first \<open>k\<close> file
  steps of another.
\<close>

lemma Dire_fields [simp]:
  "directoryPath (Dire s) = directoryPath s"
  "dir_files (Dire s) = dir_files s"
  "heap_arrays (Dire s) = heap_arrays s"
  "heap_objects (Dire s) = heap_objects s"
  "data (Dire s) = Map.empty"
  "modifiedCollections (Dire s) = []"
  by (simp_all add: Dire_def)




text \<open>The scenario states, evaluated.\<close>

lemma new_array_petsData:
  "new_array petsData test_db =
     (1, test_db\<lparr>heap_arrays := [[ERef 0, ERef 1], [ERef 2, ERef 3]],
                heap_objects := heap_objects test_db @ petsData\<rparr>)"
  by (simp add: new_array_def petsData_def test_db_eq)



lemma pets_added_eq:
  "pets_added =
     \<lparr>directoryPath = [''tests'', ''db''], data = [''users'' \<mapsto> SArr 0, ''pets'' \<mapsto> SArr 1], modifiedCollections = [''pets''],
      isLoaded = True,
      heap_arrays = [[ERef 0, ERef 1], [ERef 2, ERef 3]],
      heap_objects = heap_objects test_db @ petsData,
      dir_files = dir_files test_world\<rparr>"
  by (simp add: pets_added_def pets_literal_def new_array_petsData add_def
      markCollectionAsModified_def) (simp add: test_db_eq)

lemma two_unsaved_eq:
  "two_unsaved =
     \<lparr>directoryPath = [''tests'', ''db''], data = [''users'' \<mapsto> SArr 0, ''pets'' \<mapsto> SArr 1, ''toys'' \<mapsto> SArr 2],
      modifiedCollections = [''pets'', ''toys''],
      isLoaded = True,
      heap_arrays = [[ERef 0, ERef 1], [ERef 2, ERef 3], []],
      heap_objects = heap_objects test_db @ petsData,
      dir_files = dir_files test_world\<rparr>"
  by (simp add: two_unsaved_def pets_added_eq add_def markCollectionAsModified_def numeral_2_eq_2)


subsection \<open>Saving\<close>

text \<open>
  Claim C2 says that a write that fails does not keep \<open>save\<close> from flushing the other
  modified collections, and that the set of modified names is cleared all the same. In
  the code the loop over the modified names and the \<^verbatim>\<open>clear()\<close> after it stand inside
  one \<^verbatim>\<open>try\<close>: here the write of \<^verbatim>\<open>pets.json\<close> fails, the write of \<^verbatim>\<open>toys.json\<close>
  would not, and after \<open>save\<close> there is no \<^verbatim>\<open>toys.json\<close> and both names are still in
  the set.
\<close>

theorem save_aborts_counterexample:
  "modifiedCollections two_unsaved = [''pets'', ''toys''] \<and>
   \<not> write_fails pets_unwritable (target (directoryPath two_unsaved) ''toys'') \<and>
   readFile (save pets_unwritable two_unsaved) (file_of ''toys'') = None \<and>
   modifiedCollections (save pets_unwritable two_unsaved) = [''pets'', ''toys'']"
  by (simp add: two_unsaved_eq pets_unwritable_def target_plain plain_def file_of_def save_def
      readFile_def test_world_def)


text \<open>
  Claim C2, amended. Take a \<open>save\<close> that no other call overlaps, in a store whose
  modified names up to the first failing write are plain (no path separator, so that each
  has the file \<^verbatim>\<open>name.json\<close> of the directory to itself). When the write for a modified
  collection fails, \<open>save\<close> stops there: the collections before it in the iteration order
  of the set have been written (their files hold what memory holds), no other file of the
  directory is touched, and the set of modified names is left as it was. When no write
  fails, every modified collection is written and the set is cleared.
\<close>

theorem save_stops_at_first_failure:
  "(modifiedCollections s = pre @ n # post \<and>
    (\<forall>m \<in> set pre. plain m \<and> \<not> write_fails e (target (directoryPath s) m)) \<and>
    write_fails e (target (directoryPath s) n)
    \<longrightarrow> modifiedCollections (save e s) = modifiedCollections s \<and>
        (\<forall>m \<in> set pre. disk_value (save e s) m = mem_value s m) \<and>
        (\<forall>f. f \<notin> file_of ` set pre \<longrightarrow> readFile (save e s) f = readFile s f)) \<and>
   ((\<forall>m \<in> set (modifiedCollections s). plain m \<and> \<not> write_fails e (target (directoryPath s) m))
    \<longrightarrow> modifiedCollections (save e s) = [] \<and>
        (\<forall>m \<in> set (modifiedCollections s). disk_value (save e s) m = mem_value s m) \<and>
        (\<forall>f. f \<notin> file_of ` set (modifiedCollections s) \<longrightarrow> readFile (save e s) f = readFile s f))"
proof (intro conjI impI)
  assume h: "modifiedCollections s = pre @ n # post \<and>
    (\<forall>m \<in> set pre. plain m \<and> \<not> write_fails e (target (directoryPath s) m)) \<and>
    write_fails e (target (directoryPath s) n)"
  then have sv: "save e s = snd (save_files e pre s)"
    by (simp add: save_def save_files_abort)
  show "modifiedCollections (save e s) = modifiedCollections s"
    by (simp add: sv save_files_fields)
  show "\<forall>m \<in> set pre. disk_value (save e s) m = mem_value s m"
    using h save_files_written [of pre e s] by (simp add: sv disk_value_written)
  show "\<forall>f. f \<notin> file_of ` set pre \<longrightarrow> readFile (save e s) f = readFile s f"
  proof (intro allI impI)
    fix f assume "f \<notin> file_of ` set pre"
    then have "\<forall>m \<in> set pre. entry_of (directoryPath s) m \<noteq> Some f"
      using h by auto
    then show "readFile (save e s) f = readFile s f"
      by (simp add: sv save_files_other)
  qed
next
  assume h: "\<forall>m \<in> set (modifiedCollections s).
               plain m \<and> \<not> write_fails e (target (directoryPath s) m)"
  obtain s' where s': "save_files e (modifiedCollections s) s = (True, s')"
    using save_files_written [OF h] by (cases "save_files e (modifiedCollections s) s") auto
  then have sv: "save e s = s'\<lparr>modifiedCollections := []\<rparr>"
    by (simp add: save_def)
  show "modifiedCollections (save e s) = []"
    by (simp add: sv)
  have "readFile s' (file_of m) = Some (wrapper_of s m)" if "m \<in> set (modifiedCollections s)" for m
    using save_files_written [OF h] s' that by simp
  then show "\<forall>m \<in> set (modifiedCollections s). disk_value (save e s) m = mem_value s m"
    by (simp add: sv disk_value_def readFile_def wrapper_of_def split: option.splits)
  show "\<forall>f. f \<notin> file_of ` set (modifiedCollections s) \<longrightarrow> readFile (save e s) f = readFile s f"
  proof (intro allI impI)
    fix f assume "f \<notin> file_of ` set (modifiedCollections s)"
    then have "\<forall>m \<in> set (modifiedCollections s). entry_of (directoryPath s) m \<noteq> Some f"
      using h by auto
    then show "readFile (save e s) f = readFile s f"
      by (rule save_readFile_other)
  qed
qed

theorem save_stops_at_first_failure_witness:
  "modifiedCollections (save toys_unwritable two_unsaved) = [''pets'', ''toys''] \<and>
   disk_value (save toys_unwritable two_unsaved) ''pets'' = Some (JArr petsData) \<and>
   readFile (save toys_unwritable two_unsaved) (file_of ''toys'') = None \<and>
   modifiedCollections (save io_ok two_unsaved) = []"
proof -
  have d: "modifiedCollections two_unsaved = [''pets''] @ ''toys'' # []"
    by (simp add: two_unsaved_eq)
  have f: "(\<forall>m \<in> set [''pets'']. plain m \<and>
              \<not> write_fails toys_unwritable (target (directoryPath two_unsaved) m)) \<and>
           write_fails toys_unwritable (target (directoryPath two_unsaved) ''toys'')"
    by (simp add: toys_unwritable_def two_unsaved_eq target_plain plain_def file_of_def)
  have g: "\<forall>m \<in> set (modifiedCollections two_unsaved).
             plain m \<and> \<not> write_fails io_ok (target (directoryPath two_unsaved) m)"
    by (simp add: two_unsaved_eq plain_def)
  have v: "mem_value two_unsaved ''pets'' = Some (JArr petsData)"
    by (simp add: two_unsaved_eq mem_value_def array_at_def test_db_eq petsData_def)
  have t: "readFile two_unsaved (file_of ''toys'') = None"
    by (simp add: two_unsaved_eq readFile_def test_world_def file_of_def)
  have n: "file_of ''toys'' \<notin> file_of ` set [''pets'']"
    by simp
  from save_stops_at_first_failure [where s = two_unsaved and pre = "[''pets'']"
      and n = "''toys''" and post = "[]" and e = toys_unwritable, THEN conjunct1] d f
  have 1: "modifiedCollections (save toys_unwritable two_unsaved) = modifiedCollections two_unsaved"
    and 2: "disk_value (save toys_unwritable two_unsaved) ''pets'' = mem_value two_unsaved ''pets''"
    and 3: "\<forall>f. f \<notin> file_of ` set [''pets''] \<longrightarrow>
              readFile (save toys_unwritable two_unsaved) f = readFile two_unsaved f"
    by simp_all
  from save_stops_at_first_failure [where s = two_unsaved and e = io_ok, THEN conjunct2] g
  have 4: "modifiedCollections (save io_ok two_unsaved) = []"
    by simp
  have 5: "readFile (save toys_unwritable two_unsaved) (file_of ''toys'') =
           readFile two_unsaved (file_of ''toys'')"
    using 3 n by blast
  show ?thesis
    using 1 2 4 5 d v t by simp
qed

text \<open>
  The proviso on the names: \<^verbatim>\<open>./pets\<close> and \<^verbatim>\<open>pets\<close> are two names with one file. When
  both are modified, the second write replaces what the first wrote, and \<^verbatim>\<open>pets.json\<close>
  does not hold what memory holds for \<^verbatim>\<open>pets\<close>.
\<close>

lemma two_names_one_file:
  "modifiedCollections (add ''./pets'' None pets_added) = [''pets'', ''./pets''] \<and>
   modifiedCollections (save io_ok (add ''./pets'' None pets_added)) = [] \<and>
   mem_value (add ''./pets'' None pets_added) ''pets'' = Some (JArr petsData) \<and>
   disk_value (save io_ok (add ''./pets'' None pets_added)) ''pets'' = None"
  by (simp add: pets_added_eq add_def markCollectionAsModified_def save_def entry_of_def
      target_def file_of_def norm_step_def wrapper_of_def mem_value_def array_at_def
      writeFile_def disk_value_def readFile_def test_world_def test_db_eq petsData_def)


subsection \<open>Dropping a collection\<close>

text \<open>
  Claim C3: after \<open>drop(C)\<close> and \<open>save()\<close> the directory has no file for \<open>C\<close>, also when
  \<open>C\<close> is in the set of modified names. \<open>drop\<close> deletes the property and the file, and
  leaves the name in the set: the next \<open>save\<close> writes the file again, for a collection
  that is gone. The store of the tests after \<^verbatim>\<open>db.add('pets', petsData)\<close>: then
  \<^verbatim>\<open>db.drop('pets')\<close> and \<^verbatim>\<open>db.save()\<close> leave a file \<^verbatim>\<open>pets.json\<close> that holds \<^verbatim>\<open>{}\<close>.
\<close>

theorem drop_then_save_restores_file:
  "collection pets_added ''pets'' = Some [ERef 2, ERef 3] \<and>
   ''pets'' \<in> set (modifiedCollections pets_added) \<and>
   collection (drop_dire io_ok ''pets'' pets_added) ''pets'' = None \<and>
   file_of ''pets'' \<in> set (readdir (save io_ok (drop_dire io_ok ''pets'' pets_added))) \<and>
   readFile (save io_ok (drop_dire io_ok ''pets'' pets_added)) (file_of ''pets'') = Some (Wrapper [])"
  by (simp add: pets_added_eq drop_dire_def plain_def unlink_def collection_def array_at_def
      save_def file_of_def wrapper_of_def mem_value_def writeFile_def readdir_def readFile_def
      test_world_def)


text \<open>
  When the name is plain, no modified name is written to its file (as in the test, which
  drops on a new instance) and the file can be deleted, the file is gone after \<open>drop\<close>
  and \<open>save\<close>.
\<close>

lemma drop_then_save_removes_file:
  assumes "\<forall>D \<in> set (modifiedCollections s). entry_of (directoryPath s) D \<noteq> Some (file_of C)"
    and "plain C" and "\<not> unlink_fails e (target (directoryPath s) C)"
  shows "file_of C \<notin> set (readdir (save e' (drop_dire e C s)))"
proof -
  let ?s1 = "drop_dire e C s"
  have m: "modifiedCollections ?s1 = modifiedCollections s" "directoryPath ?s1 = directoryPath s"
    by (simp_all add: drop_dire_def Let_def)
  have "readFile ?s1 (file_of C) = None"
    using assms(2,3) by (simp add: drop_dire_def Let_def)
  moreover have "readFile (save e' ?s1) (file_of C) = readFile ?s1 (file_of C)"
    using assms(1) by (intro save_readFile_other) (simp add: m)
  ultimately show ?thesis
    by (simp add: readdir_readFile)
qed

subsection \<open>The round trip\<close>


text \<open>
  Nor does the round trip hold in a directory with a \<^verbatim>\<open>.json\<close> file that cannot be read
  or parsed: \<open>load\<close> stops at that file, and the files listed after it are not loaded.
\<close>

lemma unreadable_file_breaks_roundtrip:
  "records
     (load io_ok (load io_ok (Dire (save io_ok
        (add ''pets'' (Some (SArr 0)) (snd (new_array petsData (load io_ok (Dire broken_world)))))))))
     ''pets'' = None"
  by (simp add: broken_world_def test_world_def Dire_def load_def readdir_def endsWith_def
      readFile_def new_array_def petsData_def add_def markCollectionAsModified_def save_def
      plain_def file_of_def wrapper_of_def mem_value_def array_at_def writeFile_def
      records_def collection_def)



subsection \<open>References handed out\<close>


text \<open>
  What does hold: the array that \<open>find\<close> returns is a new one, so a \<^verbatim>\<open>push\<close> onto it
  changes no collection.
\<close>

lemma find_returns_new_array:
  assumes "find_dire C p s = Inr (a, s')" and "collection s n = Some ys"
  shows "collection (caller_push a x s') n = Some ys"
proof -
  obtain b where b: "data s n = Some (SArr b)" "b < length (heap_arrays s)" "heap_arrays s ! b = ys"
    using collection_SomeD [OF assms(2)] by blast
  obtain xs where "collection s C = Some xs"
    using assms(1) by (cases "collection s C") (simp_all add: find_dire_def)
  then have "a = length (heap_arrays s)" and "data s' = data s"
    and "\<exists>zs. heap_arrays s' = heap_arrays s @ [zs]"
    using assms(1) by (auto simp: find_dire_def)
  then show ?thesis
    using b by (auto simp: caller_push_def collection_def array_at_def nth_append)
qed

subsection \<open>What a mutation leaves alone\<close>














text \<open>
  The same for \<open>update\<close> and a shared record: after
  \<^verbatim>\<open>db.add('recent', await db.find('users'))\<close> an \<open>update\<close> of \<^verbatim>\<open>users\<close> changes the
  records of \<^verbatim>\<open>recent\<close>.
\<close>

lemma shared_record_changes:
  "records (run copy_then_update test_db) ''recent'' = Some [john, jane] \<and>
   (case update ''users'' (Some (name_is ''Jane'')) (Some (set_property ''age'' (JNum 30)))
           (run copy_then_update test_db) of
      Inl err \<Rightarrow> False
    | Inr s' \<Rightarrow>
        records s' ''recent'' =
          Some [john, JObj [(''name'', JStr ''Jane''), (''surname'', JStr ''Doe''), (''age'', JNum 30)]])"
  by (simp add: copy_then_update_def test_db_eq find_dire_def collection_def array_at_def
      match_all_def add_def markCollectionAsModified_def update_def name_is_def records_def
      john_def jane_def)

subsection \<open>The set of modified names\<close>











lemma separate_mark [simp]: "separate (markCollectionAsModified n s) = separate s"
  by (simp add: separate_def)

lemma mem_value_mark [simp]: "mem_value (markCollectionAsModified n s) m = mem_value s m"
  by (simp add: mem_value_def)












lemma disk_value_install [simp]: "disk_value (install n w s) m = disk_value s m"
  by (simp add: disk_value_def)






























lemma constructed_test_world: "load io_ok (Dire test_world) = test_db"
  by (simp add: test_db_def)




text \<open>
  None of the provisos on the calls and the directory can be left out: with a shared
  array, with an \<^verbatim>\<open>unlink\<close> that fails, with a file that cannot be parsed, and with a
  name that is not plain, a collection has unsaved changes and its name is not in the
  set. (With \<^verbatim>\<open>./users\<close>, \<open>save\<close> writes the empty collection \<^verbatim>\<open>./users\<close> to the file
  \<^verbatim>\<open>users.json\<close>, from which \<open>load\<close> reads the collection \<^verbatim>\<open>users\<close>.)
\<close>

lemma shared_array_unmarked:
  "unsaved (run share_then_insert (load io_ok (Dire test_world))) ''staff'' \<and>
   ''staff'' \<notin> set (modifiedCollections (run share_then_insert (load io_ok (Dire test_world))))"
  by (simp add: constructed_test_world share_then_insert_def)
     (simp add: test_db_eq add_def markCollectionAsModified_def save_def file_of_def plain_def
        wrapper_of_def writeFile_def insert_dire_def unsaved_def mem_value_def array_at_def
        disk_value_def readFile_def test_world_def)

lemma failed_unlink_unmarked:
  "unsaved (run drop_undeletable (load io_ok (Dire test_world))) ''users'' \<and>
   ''users'' \<notin> set (modifiedCollections (run drop_undeletable (load io_ok (Dire test_world))))"
  by (simp add: constructed_test_world drop_undeletable_def)
     (simp add: test_db_eq drop_dire_def unsaved_def mem_value_def disk_value_def readFile_def
        test_world_def file_of_def)

lemma unreadable_file_unmarked:
  "unsaved (load io_ok (Dire broken_world)) ''users'' \<and>
   ''users'' \<notin> set (modifiedCollections (load io_ok (Dire broken_world)))"
  by (simp add: broken_world_def test_world_def Dire_def load_def readdir_def endsWith_def
      readFile_def unsaved_def mem_value_def disk_value_def file_of_def)

lemma dotted_name_unmarked:
  "unsaved (run dotted_then_save (load io_ok (Dire test_world))) ''users'' \<and>
   ''users'' \<notin> set (modifiedCollections (run dotted_then_save (load io_ok (Dire test_world))))"
  by (simp add: constructed_test_world dotted_then_save_def)
     (simp add: test_db_eq add_def markCollectionAsModified_def save_def entry_of_def
        target_def file_of_def norm_step_def wrapper_of_def writeFile_def unsaved_def
        mem_value_def array_at_def disk_value_def readFile_def test_world_def)

end
